theory Spec2Isabelle
  imports Main "HOL-Library.AList"
begin

section \<open>Appointment assistant backend (app.py)\<close>

text \<open>
  A shallow embedding of \<^verbatim>\<open>app.py\<close>: the in-memory appointment calendar, the
  extraction gateway \<^verbatim>\<open>parse_date_time\<close>, the dialogue policy
  \<^verbatim>\<open>generate_response\<close> and the turn handler \<^verbatim>\<open>chat\<close>.

  Python strings are \<open>string\<close>s whose characters are read as code points below 256.
  The module-level dictionary \<^verbatim>\<open>APPOINTMENTS\<close> is mutated in place by the source;
  here every function that reads or writes it takes the calendar as an argument and
  returns the new one.
\<close>

subsection \<open>Values of the JSON objects\<close>

text \<open>
  An intent record and the request body are JSON objects. Their values are
  modelled at the shape the Intent Record has: \<^verbatim>\<open>null\<close> or a string.
  \<open>truthy\<close> is Python's truth test (\<^verbatim>\<open>if name:\<close>, \<^verbatim>\<open>if not service:\<close>):
  \<^verbatim>\<open>None\<close> and the empty string are false. \<open>py_format\<close> is what an f-string
  writes for a value.
\<close>

datatype pyval = PNone | PStr string

fun truthy :: "pyval \<Rightarrow> bool" where
  "truthy PNone = False"
| "truthy (PStr s) = (s \<noteq> [])"

fun py_format :: "pyval \<Rightarrow> string" where
  "py_format PNone = ''None''"
| "py_format (PStr s) = s"

type_synonym dict = "string \<rightharpoonup> pyval"

text \<open>\<^verbatim>\<open>d.get(k)\<close>: the value at \<open>k\<close>, \<^verbatim>\<open>None\<close> when the key is absent.\<close>

definition dict_get :: "dict \<Rightarrow> string \<Rightarrow> pyval" where
  "dict_get d k = (case d k of None \<Rightarrow> PNone | Some v \<Rightarrow> v)"

text \<open>\<^verbatim>\<open>d.get(k, default)\<close>.\<close>

definition dict_get_default :: "dict \<Rightarrow> string \<Rightarrow> pyval \<Rightarrow> pyval" where
  "dict_get_default d k dflt = (case d k of None \<Rightarrow> dflt | Some v \<Rightarrow> v)"

text \<open>\<^verbatim>\<open>sep.join(xs)\<close>.\<close>

fun join :: "string \<Rightarrow> string list \<Rightarrow> string" where
  "join sep [] = []"
| "join sep [x] = x"
| "join sep (x # y # ys) = x @ sep @ join sep (y # ys)"

text \<open>
  \<^verbatim>\<open>s.strip()\<close> removes leading and trailing whitespace; \<open>py_isspace\<close> is
  \<^verbatim>\<open>str.isspace\<close> on the code points below 256 (tab to carriage return, the four
  separators 28 to 31, space, NEL and the no-break space).
\<close>

definition py_isspace :: "char \<Rightarrow> bool" where
  "py_isspace c = ((of_char c :: nat) \<in> {9, 10, 11, 12, 13, 28, 29, 30, 31, 32, 133, 160})"

definition strip :: "string \<Rightarrow> string" where
  "strip s = rev (dropWhile py_isspace (rev (dropWhile py_isspace s)))"

subsection \<open>The appointment calendar\<close>

text \<open>
  A booking record is the dictionary
  \<^verbatim>\<open>{"service": ..., "name": ..., "booked": True}\<close>. The calendar maps the key
  \<^verbatim>\<open>"YYYY-MM-DD HH:MM"\<close> to its record; it is kept as an association list in
  insertion order, as a Python dictionary is: assigning to a key that is there replaces
  its record in place, assigning to a new key appends it (\<open>AList.update\<close>).
\<close>

record booking =
  b_service :: pyval
  b_name :: pyval
  booked :: bool

type_synonym store = "(string \<times> booking) list"

definition APPOINTMENTS :: store where
  "APPOINTMENTS =
     [(''2024-09-20 10:00'', \<lparr>b_service = PStr ''dentist'', b_name = PStr ''John Doe'', booked = True\<rparr>),
      (''2024-09-20 14:00'', \<lparr>b_service = PStr ''haircut'', b_name = PStr ''Jane Smith'', booked = True\<rparr>)]"

definition AVAILABLE_SLOTS :: "string list" where
  "AVAILABLE_SLOTS =
     [''09:00'', ''10:00'', ''11:00'', ''12:00'', ''13:00'', ''14:00'', ''15:00'', ''16:00'', ''17:00'']"

text \<open>\<^verbatim>\<open>appointment_key = f"{date} {time}"\<close>, in both functions below.\<close>

definition appointment_key :: "pyval \<Rightarrow> pyval \<Rightarrow> string" where
  "appointment_key date time = py_format date @ '' '' @ py_format time"

definition check_availability :: "pyval \<Rightarrow> pyval \<Rightarrow> store \<Rightarrow> bool" where
  "check_availability date time appointments =
     (appointment_key date time \<notin> set (map fst appointments))"

definition book_appointment :: "pyval \<Rightarrow> pyval \<Rightarrow> pyval \<Rightarrow> pyval \<Rightarrow> store \<Rightarrow> bool \<times> store" where
  "book_appointment date time service name appointments =
     (True,
      AList.update (appointment_key date time)
        \<lparr>b_service = service, b_name = name, booked = True\<rparr> appointments)"

subsection \<open>The dialogue policy\<close>

definition generate_response :: "string \<Rightarrow> dict \<Rightarrow> store \<Rightarrow> string \<times> store" where
  "generate_response user_message extracted_info appointments =
     (let intent = dict_get extracted_info ''intent'' in
      if intent = PStr ''greeting'' then
        (''Hello! I'm your appointment assistant. I can help you book appointments. What kind of appointment would you like to schedule?'',
         appointments)
      else if intent = PStr ''book_appointment'' then
        (let service = dict_get extracted_info ''service_type'';
             date = dict_get extracted_info ''date'';
             time = dict_get extracted_info ''time'';
             name = dict_get extracted_info ''user_name'';
             missing_info = [];
             missing_info = (if \<not> truthy service then missing_info @ [''type of appointment''] else missing_info);
             missing_info = (if \<not> truthy date then missing_info @ [''date''] else missing_info);
             missing_info = (if \<not> truthy time then missing_info @ [''time''] else missing_info)
         in
           if missing_info \<noteq> [] then
             (let missing_str = join '', '' missing_info in
              (''I need a bit more information. Could you please provide the '' @ missing_str @ ''?'',
               appointments))
           else if check_availability date time appointments then
             (if truthy name then
                (let (ok, appointments') = book_appointment date time service name appointments in
                 (''Perfect! Your '' @ py_format service @ '' appointment for '' @ py_format date @
                    '' at '' @ py_format time @ '' is confirmed, '' @ py_format name @
                    ''. Is there anything else I can help you with?'',
                  appointments'))
              else
                (''Great! I have a '' @ py_format service @ '' appointment available on '' @
                   py_format date @ '' at '' @ py_format time @
                   ''. What's your name so I can confirm the booking?'',
                 appointments))
           else
             (''I'm s'' @ ''orry, but '' @ py_format time @ '' on '' @ py_format date @
                '' is already booked. Here are some available times: '' @
                join '', '' (take 3 AVAILABLE_SLOTS) @ ''. Would any of these work?'',
              appointments))
      else
        (''I'm here to help you book appointments. Could you please tell me what kind of appointment you need and when you'd like to schedule it?'',
         appointments))"

subsection \<open>The extraction gateway\<close>

text \<open>
  The external completion service and the JSON parser are not part of the program: they
  are parameters. A call either raises an exception of class \<^verbatim>\<open>Exception\<close>
  (\<open>Inl\<close>) or returns (\<open>Inr\<close>). \<open>ChatCompletion_create\<close> stands for the request
  and the read of \<^verbatim>\<open>response.choices[0].message.content\<close>, \<open>now_strftime\<close> for
  \<^verbatim>\<open>datetime.now().strftime("%Y-%m-%d")\<close>. The request record holds the model name,
  the two messages (role, content) and the output bound; the sampling temperature, a
  floating-point constant, is not recorded.

  \<open>json\<close> is what \<^verbatim>\<open>json.loads\<close> can return: \<^verbatim>\<open>None\<close>, a bool, a number (an
  integer here), a string, a list, or a dict. The values of a dict are \<^verbatim>\<open>null\<close> or
  strings, as above. The parser is free to return any of them: nothing in
  \<^verbatim>\<open>parse_date_time\<close> looks at the shape of what was parsed.
\<close>

datatype pyexc = PyException string

datatype json =
  JNull
| JBool bool
| JNumber int
| JString string
| JArray "json list"
| JObject dict

record completion_request =
  model :: string
  messages :: "(string \<times> string) list"
  max_tokens :: nat

record env =
  now_strftime :: string
  ChatCompletion_create :: "completion_request \<Rightarrow> pyexc + pyval"
  json_loads :: "string \<Rightarrow> pyexc + json"

text \<open>\<^verbatim>\<open>try: body except Exception as e: handler\<close>.\<close>

definition try_except :: "pyexc + 'a \<Rightarrow> (pyexc \<Rightarrow> pyexc + 'a) \<Rightarrow> pyexc + 'a" where
  "try_except body handler = (case body of Inl e \<Rightarrow> handler e | Inr v \<Rightarrow> Inr v)"

definition system_prompt :: "string \<Rightarrow> string" where
  \<open>system_prompt today =
     ''\<newline>You are an appointment extraction assistant. Extract appointment information from user messages.\<newline>'' @
     ''Return a JSON object with these fields:\<newline>'' @
     ''- service_type: type of appointment (dentist, haircut, meeting, etc.)\<newline>'' @
     ''- date: date in YYYY-MM-DD format (if relative like "tomorrow", convert to actual date)\<newline>'' @
     ''- time: time in HH:MM format (24-hour)\<newline>'' @
     ''- user_name: user's name if mentioned\<newline>'' @
     ''- intent: "book_appointment" if they want to book, "greeting" if just saying hi, "unclear" if unclear\<newline>'' @
     ''\<newline>'' @
     ''If any field is not clear or missing, use null for that field.\<newline>'' @
     ''Today's date is '' @ today @ ''\<newline>'' @
     ''\<newline>'' @
     ''Examples:\<newline>'' @
     ''User: "Hi, I want to book a dentist appointment for tomorrow at 2 PM"\<newline>'' @
     ''Response: {"service_type": "dentist", "date": "2024-09-21", "time": "14:00", "user_name": null, "intent": "book_appointment"}\<newline>'' @
     ''\<newline>'' @
     ''User: "Hello"\<newline>'' @
     ''Response: {"service_type": null, "date": null, "time": null, "user_name": null, "intent": "greeting"}\<newline>''\<close>

text \<open>The fallback of the handler: every field \<^verbatim>\<open>None\<close>, intent \<^verbatim>\<open>"unclear"\<close>.\<close>

definition fallback_info :: dict where
  "fallback_info =
     [''service_type'' \<mapsto> PNone, ''date'' \<mapsto> PNone, ''time'' \<mapsto> PNone,
      ''user_name'' \<mapsto> PNone, ''intent'' \<mapsto> PStr ''unclear'']"

text \<open>
  The body of the \<^verbatim>\<open>try\<close>: build the prompt, call the service, strip the content
  and parse it. A content of \<^verbatim>\<open>None\<close> has no \<^verbatim>\<open>strip\<close>: an
  \<^verbatim>\<open>AttributeError\<close>.
\<close>

definition the_request :: "env \<Rightarrow> string \<Rightarrow> completion_request" where
  "the_request e user_message =
     \<lparr>model = ''gpt-3.5-turbo'',
      messages = [(''system'', system_prompt (now_strftime e)), (''user'', user_message)],
      max_tokens = 200\<rparr>"

definition parse_date_time_body :: "env \<Rightarrow> string \<Rightarrow> pyexc + json" where
  "parse_date_time_body e user_message =
     (case ChatCompletion_create e (the_request e user_message) of
        Inl ex \<Rightarrow> Inl ex
      | Inr PNone \<Rightarrow> Inl (PyException ''AttributeError'')
      | Inr (PStr content) \<Rightarrow> json_loads e (strip content))"

text \<open>
  \<open>parse_date_time\<close> returns what was parsed as it is (\<^verbatim>\<open>return extracted_info\<close>),
  and the fallback dict from the handler. It also returns the list of requests sent so
  far, extended by its own: the record of the outbound calls, by which a turn that makes
  none can be told.
\<close>

definition parse_date_time ::
  "env \<Rightarrow> string \<Rightarrow> completion_request list \<Rightarrow> (pyexc + json) \<times> completion_request list" where
  "parse_date_time e user_message sent =
     (try_except (parse_date_time_body e user_message) (\<lambda>ex. Inr (JObject fallback_info)),
      sent @ [the_request e user_message])"

subsection \<open>The turn handler\<close>

text \<open>
  The state of the process: the calendar and the requests sent to the completion
  service. A reply is the JSON object \<^verbatim>\<open>{'response': ...}\<close>, with
  \<^verbatim>\<open>'extracted_info'\<close> when the policy ran. The request body is \<open>None\<close> when
  \<^verbatim>\<open>request.get_json()\<close> raises or returns no object; a message that is not a
  string has no \<^verbatim>\<open>strip\<close>. Both end in the handler of the catch-all.

  \<^verbatim>\<open>generate_response\<close> is called with whatever the gateway returned. Its first
  statement, \<^verbatim>\<open>extracted_info.get('intent')\<close>, raises an \<^verbatim>\<open>AttributeError\<close> on a
  value that is not a dict, before the calendar is read or written; on a dict the call
  is \<open>generate_response\<close> above. \<open>generate_response_on\<close> is that call. The catch-all of
  \<open>chat\<close> turns the exception into the apology.
\<close>

record world =
  w_appointments :: store
  w_requests :: "completion_request list"

datatype reply = Reply string "json option"

definition generate_response_on :: "string \<Rightarrow> json \<Rightarrow> store \<Rightarrow> pyexc + string \<times> store" where
  "generate_response_on user_message extracted_info appointments =
     (case extracted_info of
        JObject d \<Rightarrow> Inr (generate_response user_message d appointments)
      | _ \<Rightarrow> Inl (PyException ''AttributeError''))"

definition apology :: reply where
  "apology = Reply ''Sorry, I encountered an error. Please try again.'' None"

definition chat :: "env \<Rightarrow> dict option \<Rightarrow> world \<Rightarrow> reply \<times> world" where
  "chat e body w =
     (case body of
        None \<Rightarrow> (apology, w)
      | Some data \<Rightarrow>
          (case dict_get_default data ''message'' (PStr []) of
             PNone \<Rightarrow> (apology, w)
           | PStr user_message \<Rightarrow>
               if strip user_message = [] then (Reply ''Please enter a message.'' None, w)
               else
                 (let (r, sent) = parse_date_time e user_message (w_requests w) in
                  case r of
                    Inl ex \<Rightarrow> (apology, w\<lparr>w_requests := sent\<rparr>)
                  | Inr extracted_info \<Rightarrow>
                      (case generate_response_on user_message extracted_info (w_appointments w) of
                         Inl ex \<Rightarrow> (apology, w\<lparr>w_requests := sent\<rparr>)
                       | Inr (bot_response, appointments') \<Rightarrow>
                           (Reply bot_response (Some extracted_info),
                            \<lparr>w_appointments = appointments', w_requests = sent\<rparr>)))))"

subsection \<open>Sequences of operations on the calendar\<close>

text \<open>
  The two functions that can write the calendar, as operations: a direct call of
  \<^verbatim>\<open>book_appointment\<close> and one step of the dialogue policy. \<open>run\<close> applies a
  sequence of them from left to right.
\<close>

datatype operation =
  Book pyval pyval pyval pyval
| Decide string dict

fun apply_operation :: "operation \<Rightarrow> store \<Rightarrow> store" where
  "apply_operation (Book date time service name) appointments =
     snd (book_appointment date time service name appointments)"
| "apply_operation (Decide user_message extracted_info) appointments =
     snd (generate_response user_message extracted_info appointments)"

fun run :: "operation list \<Rightarrow> store \<Rightarrow> store" where
  "run [] appointments = appointments"
| "run (x # xs) appointments = run xs (apply_operation x appointments)"

text \<open>
  The invariant of the calendar: no key twice (it is a dictionary) and every record has
  its \<^verbatim>\<open>booked\<close> flag set.
\<close>

definition store_inv :: "store \<Rightarrow> bool" where
  "store_inv appointments =
     (distinct (map fst appointments) \<and> list_all (\<lambda>(k, r). booked r) appointments)"

subsection \<open>The missing fields, as the specification words them\<close>

text \<open>
  The required fields of a booking are the service, the date and the time; a field is
  missing when its value is false in Python's sense (the key is absent, the value is
  \<^verbatim>\<open>null\<close>, or it is the empty string). \<open>spec_missing_fields\<close> lists the labels of
  the missing ones in that order; the theorems compare it with the list the policy
  builds by its three appends.
\<close>

definition spec_missing_fields :: "dict \<Rightarrow> string list" where
  "spec_missing_fields extracted_info =
     map snd (filter (\<lambda>(k, label). \<not> truthy (dict_get extracted_info k))
       [(''service_type'', ''type of appointment''), (''date'', ''date''), (''time'', ''time'')])"

subsection \<open>Example inputs\<close>

text \<open>
  An intent record of the shape the prompt asks for, a completion service that is down,
  one that answers \<^verbatim>\<open>[]\<close> (which \<^verbatim>\<open>json.loads\<close> parses to the empty list), and
  the state of the process at its start.
\<close>

definition intent_record :: "pyval \<Rightarrow> pyval \<Rightarrow> pyval \<Rightarrow> pyval \<Rightarrow> pyval \<Rightarrow> dict" where
  "intent_record service date time name intent =
     [''service_type'' \<mapsto> service, ''date'' \<mapsto> date, ''time'' \<mapsto> time,
      ''user_name'' \<mapsto> name, ''intent'' \<mapsto> intent]"

definition env_unavailable :: env where
  "env_unavailable =
     \<lparr>now_strftime = ''2024-09-19'',
      ChatCompletion_create = (\<lambda>req. Inl (PyException ''APIConnectionError'')),
      json_loads = (\<lambda>s. Inl (PyException ''JSONDecodeError''))\<rparr>"


definition world0 :: world where
  "world0 = \<lparr>w_appointments = APPOINTMENTS, w_requests = []\<rparr>"

section \<open>Properties\<close>

subsection \<open>Auxiliary facts\<close>

lemma dict_get_intent_record:
  "dict_get (intent_record service date time name intent) ''service_type'' = service"
  "dict_get (intent_record service date time name intent) ''date'' = date"
  "dict_get (intent_record service date time name intent) ''time'' = time"
  "dict_get (intent_record service date time name intent) ''user_name'' = name"
  "dict_get (intent_record service date time name intent) ''intent'' = intent"
  by (simp_all add: dict_get_def intent_record_def)

lemma update_fresh:
  "k \<notin> set (map fst s) \<Longrightarrow> AList.update k v s = s @ [(k, v)]"
  by (induction s) auto

lemma no_record_iff: "(map_of s k = None) = (k \<notin> set (map fst s))"
  by (simp add: map_of_eq_None_iff)

lemma strip_all_space:
  assumes "\<forall>c\<in>set m. py_isspace c"
  shows "strip m = []"
proof -
  from assms have d: "dropWhile py_isspace m = []" by simp
  show ?thesis unfolding strip_def d by simp
qed

lemma update_inv:
  "store_inv s \<Longrightarrow> booked r \<Longrightarrow> store_inv (AList.update k r s)"
  unfolding store_inv_def
proof (induction s)
  case Nil
  then show ?case by simp
next
  case (Cons p s)
  then show ?case by (cases p) (auto simp add: dom_update)
qed

lemma update_keys: "set (map fst s) \<subseteq> set (map fst (AList.update k r s))"
  by (auto simp add: dom_update)

text \<open>The policy leaves the calendar as it is, or makes the one booking of its arguments.\<close>

lemma generate_response_store:
  "snd (generate_response user_message extracted_info s) = s
   \<or> snd (generate_response user_message extracted_info s) =
       snd (book_appointment (dict_get extracted_info ''date'') (dict_get extracted_info ''time'')
              (dict_get extracted_info ''service_type'') (dict_get extracted_info ''user_name'') s)"
  by (simp add: generate_response_def Let_def book_appointment_def)

lemma apply_operation_inv: "store_inv s \<Longrightarrow> store_inv (apply_operation x s)"
proof (cases x)
  case (Book date time service name)
  assume "store_inv s"
  then show ?thesis using Book by (simp add: book_appointment_def update_inv)
next
  case (Decide user_message extracted_info)
  assume inv: "store_inv s"
  from generate_response_store [of user_message extracted_info s]
  show ?thesis using Decide inv by (auto simp add: book_appointment_def update_inv)
qed

lemma apply_operation_keys: "set (map fst s) \<subseteq> set (map fst (apply_operation x s))"
proof (cases x)
  case (Book date time service name)
  then show ?thesis using update_keys by (simp add: book_appointment_def)
next
  case (Decide user_message extracted_info)
  from generate_response_store [of user_message extracted_info s]
  show ?thesis
  proof
    assume "snd (generate_response user_message extracted_info s) = s"
    then show ?thesis using Decide by simp
  next
    assume "snd (generate_response user_message extracted_info s) =
       snd (book_appointment (dict_get extracted_info ''date'') (dict_get extracted_info ''time'')
              (dict_get extracted_info ''service_type'') (dict_get extracted_info ''user_name'') s)"
    then show ?thesis using Decide update_keys by (simp add: book_appointment_def)
  qed
qed

lemma run_inv: "store_inv s \<Longrightarrow> store_inv (run ops s)"
  by (induction ops arbitrary: s) (simp_all add: apply_operation_inv)

lemma run_keys: "set (map fst s) \<subseteq> set (map fst (run ops s))"
proof (induction ops arbitrary: s)
  case Nil
  show ?case by simp
next
  case (Cons x ops)
  from apply_operation_keys [of s x] Cons [of "apply_operation x s"]
  show ?case by auto
qed

lemma seed_inv: "store_inv APPOINTMENTS"
  by (simp add: store_inv_def APPOINTMENTS_def)

lemma inv_booked: "store_inv s \<Longrightarrow> map_of s k = Some r \<Longrightarrow> booked r"
  by (auto simp add: store_inv_def list_all_iff dest: map_of_SomeD)

lemma run_example:
  "run [Decide ''Book me a dentist''
          (intent_record (PStr ''dentist'') (PStr ''2024-09-21'') (PStr ''09:00'') (PStr ''Alice'')
             (PStr ''book_appointment'')),
        Book (PStr ''2024-09-20'') (PStr ''10:00'') (PStr ''haircut'') (PStr ''Bob'')] APPOINTMENTS =
     [(''2024-09-20 10:00'', \<lparr>b_service = PStr ''haircut'', b_name = PStr ''Bob'', booked = True\<rparr>),
      (''2024-09-20 14:00'', \<lparr>b_service = PStr ''haircut'', b_name = PStr ''Jane Smith'', booked = True\<rparr>),
      (''2024-09-21 09:00'', \<lparr>b_service = PStr ''dentist'', b_name = PStr ''Alice'', booked = True\<rparr>)]"
  by (simp add: generate_response_def dict_get_intent_record check_availability_def
      book_appointment_def appointment_key_def APPOINTMENTS_def Let_def)

subsection \<open>The calendar\<close>

text \<open>
  C2. A slot is available exactly when the calendar has no booking record at its key:
  for every key without a record \<open>check_availability\<close> is true, and for a key with one
  it is false. After \<open>book_appointment date time service name\<close>, whatever the calendar
  was before, \<open>check_availability date time\<close> is false.
\<close>

theorem availability_iff_no_record:
  "check_availability date time appointments =
     (map_of appointments (appointment_key date time) = None) \<and>
   \<not> check_availability date time (snd (book_appointment date time service name appointments))"
  by (simp add: check_availability_def book_appointment_def no_record_iff dom_update)

text \<open>
  C9. From the seed calendar, every sequence of operations (direct bookings and steps of
  the dialogue policy) leads to a calendar in which no key occurs twice and every record
  has its booked flag true; a record exists at a key exactly when that slot is not
  available; every record found at a key has its booked flag true; and the keys of the
  seed are still there, since nothing removes a record.
\<close>

theorem store_invariant_preserved:
  "store_inv (run ops APPOINTMENTS) \<and>
   (\<forall>date time. (\<exists>r. map_of (run ops APPOINTMENTS) (appointment_key date time) = Some r) =
                 (\<not> check_availability date time (run ops APPOINTMENTS))) \<and>
   (\<forall>k r. map_of (run ops APPOINTMENTS) k = Some r \<longrightarrow> booked r) \<and>
   set (map fst APPOINTMENTS) \<subseteq> set (map fst (run ops APPOINTMENTS))"
proof -
  have inv: "store_inv (run ops APPOINTMENTS)" by (rule run_inv [OF seed_inv])
  have avail: "(\<exists>r. map_of s (appointment_key date time) = Some r) =
                 (\<not> check_availability date time s)" for s date time
    using no_record_iff [of s "appointment_key date time"]
    by (auto simp add: check_availability_def)
  show ?thesis using inv avail inv_booked [OF inv] run_keys by blast
qed

theorem store_invariant_preserved_witness:
  "map_of (run [Decide ''Book me a dentist''
          (intent_record (PStr ''dentist'') (PStr ''2024-09-21'') (PStr ''09:00'') (PStr ''Alice'')
             (PStr ''book_appointment'')),
        Book (PStr ''2024-09-20'') (PStr ''10:00'') (PStr ''haircut'') (PStr ''Bob'')] APPOINTMENTS)
      ''2024-09-21 09:00'' =
     Some \<lparr>b_service = PStr ''dentist'', b_name = PStr ''Alice'', booked = True\<rparr> \<and>
   booked \<lparr>b_service = PStr ''dentist'', b_name = PStr ''Alice'', booked = True\<rparr> \<and>
   store_inv (run [Decide ''Book me a dentist''
          (intent_record (PStr ''dentist'') (PStr ''2024-09-21'') (PStr ''09:00'') (PStr ''Alice'')
             (PStr ''book_appointment'')),
        Book (PStr ''2024-09-20'') (PStr ''10:00'') (PStr ''haircut'') (PStr ''Bob'')] APPOINTMENTS)"
  using store_invariant_preserved [of "[Decide ''Book me a dentist''
          (intent_record (PStr ''dentist'') (PStr ''2024-09-21'') (PStr ''09:00'') (PStr ''Alice'')
             (PStr ''book_appointment'')),
        Book (PStr ''2024-09-20'') (PStr ''10:00'') (PStr ''haircut'') (PStr ''Bob'')]"]
  unfolding run_example by simp

subsection \<open>The dialogue policy\<close>

text \<open>
  C8. When the intent is \<^verbatim>\<open>greeting\<close>, the policy returns the fixed greeting, which
  ends by asking what kind of appointment to schedule, and the calendar it returns is
  the one it was given; the response is the same for any two calendars.
\<close>

theorem greeting_fixed_text:
  assumes "dict_get extracted_info ''intent'' = PStr ''greeting''"
  shows "generate_response user_message extracted_info appointments =
           (''Hello! I'm your appointment assistant. I can help you book appointments. What kind of appointment would you like to schedule?'',
            appointments)
         \<and> fst (generate_response user_message extracted_info appointments) =
             fst (generate_response user_message extracted_info appointments')"
  using assms by (simp add: generate_response_def)

theorem greeting_fixed_text_witness:
  "dict_get (intent_record PNone PNone PNone PNone (PStr ''greeting'')) ''intent'' = PStr ''greeting'' \<and>
   generate_response ''Hello'' (intent_record PNone PNone PNone PNone (PStr ''greeting'')) APPOINTMENTS =
     (''Hello! I'm your appointment assistant. I can help you book appointments. What kind of appointment would you like to schedule?'',
      APPOINTMENTS)"
  using greeting_fixed_text [where extracted_info = "intent_record PNone PNone PNone PNone (PStr ''greeting'')"
      and user_message = "''Hello''" and appointments = APPOINTMENTS]
  by (simp add: dict_get_intent_record)

text \<open>
  C5. When the intent is \<^verbatim>\<open>book_appointment\<close> and at least one of service, date and
  time is missing, whatever the name is, the policy returns the request for more
  information that names the missing fields, all of them and no other, joined with
  \<^verbatim>\<open>", "\<close>, and the calendar is unchanged. A label is named exactly when its field
  is missing.
\<close>

theorem clarification_names_missing_fields:
  assumes "dict_get extracted_info ''intent'' = PStr ''book_appointment''"
    and "\<not> truthy (dict_get extracted_info ''service_type'')
         \<or> \<not> truthy (dict_get extracted_info ''date'')
         \<or> \<not> truthy (dict_get extracted_info ''time'')"
  shows "generate_response user_message extracted_info appointments =
           (''I need a bit more information. Could you please provide the '' @
              join '', '' (spec_missing_fields extracted_info) @ ''?'',
            appointments) \<and>
         (''type of appointment'' \<in> set (spec_missing_fields extracted_info)) =
           (\<not> truthy (dict_get extracted_info ''service_type'')) \<and>
         (''date'' \<in> set (spec_missing_fields extracted_info)) =
           (\<not> truthy (dict_get extracted_info ''date'')) \<and>
         (''time'' \<in> set (spec_missing_fields extracted_info)) =
           (\<not> truthy (dict_get extracted_info ''time'')) \<and>
         set (spec_missing_fields extracted_info) \<subseteq> {''type of appointment'', ''date'', ''time''}"
  using assms
  by (auto simp add: generate_response_def spec_missing_fields_def Let_def)

theorem clarification_names_missing_fields_witness:
  "\<not> truthy (dict_get (intent_record PNone PNone (PStr ''10:00'') (PStr ''Alice'')
       (PStr ''book_appointment'')) ''service_type'') \<and>
   generate_response ''at ten''
     (intent_record PNone PNone (PStr ''10:00'') (PStr ''Alice'') (PStr ''book_appointment''))
     APPOINTMENTS =
     (''I need a bit more information. Could you please provide the type of appointment, date?'',
      APPOINTMENTS)"
  using clarification_names_missing_fields [where extracted_info = "intent_record PNone PNone
        (PStr ''10:00'') (PStr ''Alice'') (PStr ''book_appointment'')"
      and appointments = APPOINTMENTS and user_message = "''at ten''"]
  by (simp add: dict_get_intent_record spec_missing_fields_def)

text \<open>
  C10. The policy tests the required fields by truth value, not against
  \<^verbatim>\<open>null\<close> alone: when the intent is \<^verbatim>\<open>book_appointment\<close> and service, date or
  time is the empty string, the policy returns the request for more information, the
  label of each field that is the empty string is among the fields it names, and the
  calendar is unchanged.
\<close>

theorem empty_string_field_is_missing:
  assumes "dict_get extracted_info ''intent'' = PStr ''book_appointment''"
    and "dict_get extracted_info ''service_type'' = PStr []
         \<or> dict_get extracted_info ''date'' = PStr []
         \<or> dict_get extracted_info ''time'' = PStr []"
  shows "generate_response user_message extracted_info appointments =
           (''I need a bit more information. Could you please provide the '' @
              join '', '' (spec_missing_fields extracted_info) @ ''?'',
            appointments) \<and>
         (dict_get extracted_info ''service_type'' = PStr [] \<longrightarrow>
            ''type of appointment'' \<in> set (spec_missing_fields extracted_info)) \<and>
         (dict_get extracted_info ''date'' = PStr [] \<longrightarrow>
            ''date'' \<in> set (spec_missing_fields extracted_info)) \<and>
         (dict_get extracted_info ''time'' = PStr [] \<longrightarrow>
            ''time'' \<in> set (spec_missing_fields extracted_info))"
  using assms
  by (auto simp add: generate_response_def spec_missing_fields_def Let_def)

theorem empty_string_field_is_missing_witness:
  "dict_get (intent_record (PStr ''dentist'') (PStr []) (PStr ''10:00'') (PStr ''Alice'')
       (PStr ''book_appointment'')) ''date'' = PStr [] \<and>
   generate_response ''dentist at ten''
     (intent_record (PStr ''dentist'') (PStr []) (PStr ''10:00'') (PStr ''Alice'')
        (PStr ''book_appointment'')) APPOINTMENTS =
     (''I need a bit more information. Could you please provide the date?'', APPOINTMENTS)"
  using empty_string_field_is_missing [where extracted_info = "intent_record (PStr ''dentist'')
        (PStr []) (PStr ''10:00'') (PStr ''Alice'') (PStr ''book_appointment'')"
      and appointments = APPOINTMENTS and user_message = "''dentist at ten''"]
  by (simp add: dict_get_intent_record spec_missing_fields_def)

text \<open>
  C1. When the intent is \<^verbatim>\<open>book_appointment\<close>, service, date, time and name are all
  present (non-empty strings) and the calendar has no record at the key of date and
  time, the policy returns the confirmation naming service, date, time and name, and the
  calendar it returns is the old one with exactly one record added, at that key, holding
  the service and the name given and the booked flag: the records at every other key
  are as before.
\<close>

theorem booking_confirmed_when_free:
  assumes "dict_get extracted_info ''intent'' = PStr ''book_appointment''"
    and "dict_get extracted_info ''service_type'' = PStr service" and "service \<noteq> []"
    and "dict_get extracted_info ''date'' = PStr date" and "date \<noteq> []"
    and "dict_get extracted_info ''time'' = PStr time" and "time \<noteq> []"
    and "dict_get extracted_info ''user_name'' = PStr name" and "name \<noteq> []"
    and "map_of appointments (date @ '' '' @ time) = None"
  shows "generate_response user_message extracted_info appointments =
           (''Perfect! Your '' @ service @ '' appointment for '' @ date @ '' at '' @ time @
              '' is confirmed, '' @ name @ ''. Is there anything else I can help you with?'',
            appointments @
              [(date @ '' '' @ time, \<lparr>b_service = PStr service, b_name = PStr name, booked = True\<rparr>)]) \<and>
         map_of (snd (generate_response user_message extracted_info appointments)) =
           (map_of appointments)(date @ '' '' @ time \<mapsto>
              \<lparr>b_service = PStr service, b_name = PStr name, booked = True\<rparr>) \<and>
         length (snd (generate_response user_message extracted_info appointments)) =
           Suc (length appointments)"
proof -
  let ?key = "date @ '' '' @ time"
  let ?rec = "\<lparr>b_service = PStr service, b_name = PStr name, booked = True\<rparr>"
  from assms(10) have fresh: "?key \<notin> set (map fst appointments)"
    by (simp add: no_record_iff)
  have upd: "AList.update ?key ?rec appointments = appointments @ [(?key, ?rec)]"
    by (rule update_fresh [OF fresh])
  have resp: "generate_response user_message extracted_info appointments =
           (''Perfect! Your '' @ service @ '' appointment for '' @ date @ '' at '' @ time @
              '' is confirmed, '' @ name @ ''. Is there anything else I can help you with?'',
            appointments @ [(?key, ?rec)])"
    using assms(1-9) fresh upd
    by (simp add: generate_response_def check_availability_def book_appointment_def
        appointment_key_def)
  have "map_of (appointments @ [(?key, ?rec)]) = (map_of appointments)(?key \<mapsto> ?rec)"
    unfolding upd [symmetric] by (rule update_conv')
  then show ?thesis using resp by simp
qed

theorem booking_confirmed_when_free_witness:
  "dict_get (intent_record (PStr ''dentist'') (PStr ''2024-09-21'') (PStr ''09:00'') (PStr ''Alice'')
       (PStr ''book_appointment'')) ''intent'' = PStr ''book_appointment'' \<and>
   map_of APPOINTMENTS ''2024-09-21 09:00'' = None \<and>
   generate_response ''Book me a dentist''
     (intent_record (PStr ''dentist'') (PStr ''2024-09-21'') (PStr ''09:00'') (PStr ''Alice'')
       (PStr ''book_appointment'')) APPOINTMENTS =
     (''Perfect! Your dentist appointment for 2024-09-21 at 09:00 is confirmed, Alice. Is there anything else I can help you with?'',
      APPOINTMENTS @
        [(''2024-09-21 09:00'', \<lparr>b_service = PStr ''dentist'', b_name = PStr ''Alice'', booked = True\<rparr>)])"
  using booking_confirmed_when_free [where extracted_info = "intent_record (PStr ''dentist'')
        (PStr ''2024-09-21'') (PStr ''09:00'') (PStr ''Alice'') (PStr ''book_appointment'')"
      and service = "''dentist''" and date = "''2024-09-21''" and time = "''09:00''"
      and name = "''Alice''" and appointments = APPOINTMENTS and user_message = "''Book me a dentist''"]
  by (simp add: dict_get_intent_record APPOINTMENTS_def)

text \<open>
  C3. When the intent is \<^verbatim>\<open>book_appointment\<close>, service, date and time are present
  (non-empty strings), the name is absent (the key is absent, or the value is
  \<^verbatim>\<open>null\<close> or empty) and the calendar has no record at the key of date and time,
  the policy returns the message that the slot is available and asks for the name, and
  the calendar is unchanged: no record is made.
\<close>

theorem name_asked_without_booking:
  assumes "dict_get extracted_info ''intent'' = PStr ''book_appointment''"
    and "dict_get extracted_info ''service_type'' = PStr service" and "service \<noteq> []"
    and "dict_get extracted_info ''date'' = PStr date" and "date \<noteq> []"
    and "dict_get extracted_info ''time'' = PStr time" and "time \<noteq> []"
    and "\<not> truthy (dict_get extracted_info ''user_name'')"
    and "map_of appointments (date @ '' '' @ time) = None"
  shows "generate_response user_message extracted_info appointments =
           (''Great! I have a '' @ service @ '' appointment available on '' @ date @ '' at '' @
              time @ ''. What's your name so I can confirm the booking?'',
            appointments)"
  using assms
  by (simp add: generate_response_def check_availability_def appointment_key_def no_record_iff)

theorem name_asked_without_booking_witness:
  "\<not> truthy (dict_get (intent_record (PStr ''dentist'') (PStr ''2024-09-21'') (PStr ''09:00'') PNone
       (PStr ''book_appointment'')) ''user_name'') \<and>
   map_of APPOINTMENTS ''2024-09-21 09:00'' = None \<and>
   generate_response ''Book me a dentist''
     (intent_record (PStr ''dentist'') (PStr ''2024-09-21'') (PStr ''09:00'') PNone
       (PStr ''book_appointment'')) APPOINTMENTS =
     (''Great! I have a dentist appointment available on 2024-09-21 at 09:00. What's your name so I can confirm the booking?'',
      APPOINTMENTS)"
  using name_asked_without_booking [where extracted_info = "intent_record (PStr ''dentist'')
        (PStr ''2024-09-21'') (PStr ''09:00'') PNone (PStr ''book_appointment'')"
      and service = "''dentist''" and date = "''2024-09-21''" and time = "''09:00''"
      and appointments = APPOINTMENTS and user_message = "''Book me a dentist''"]
  by (simp add: dict_get_intent_record APPOINTMENTS_def)

text \<open>
  C4. When the intent is \<^verbatim>\<open>book_appointment\<close>, service, date and time are present
  (non-empty strings) and the calendar already has a record at the key of date and time,
  the policy returns the conflict message, which names the time and the date asked for
  and lists \<^verbatim>\<open>09:00, 10:00, 11:00\<close>, the first three available slots joined with
  \<^verbatim>\<open>", "\<close>; the calendar is unchanged, whatever the name is.
\<close>

theorem conflict_suggests_first_three_slots:
  assumes "dict_get extracted_info ''intent'' = PStr ''book_appointment''"
    and "dict_get extracted_info ''service_type'' = PStr service" and "service \<noteq> []"
    and "dict_get extracted_info ''date'' = PStr date" and "date \<noteq> []"
    and "dict_get extracted_info ''time'' = PStr time" and "time \<noteq> []"
    and "map_of appointments (date @ '' '' @ time) = Some r"
  shows "generate_response user_message extracted_info appointments =
           (''I'm s'' @ ''orry, but '' @ time @ '' on '' @ date @
              '' is already booked. Here are some available times: 09:00, 10:00, 11:00. Would any of these work?'',
            appointments)
         \<and> take 3 AVAILABLE_SLOTS = [''09:00'', ''10:00'', ''11:00'']
         \<and> join '', '' (take 3 AVAILABLE_SLOTS) = ''09:00, 10:00, 11:00''"
proof -
  from assms(8) have "date @ '' '' @ time \<in> set (map fst appointments)"
    using no_record_iff [of appointments "date @ '' '' @ time"] by simp
  with assms show ?thesis
    by (simp add: generate_response_def check_availability_def appointment_key_def AVAILABLE_SLOTS_def)
qed

theorem conflict_suggests_first_three_slots_witness:
  "map_of APPOINTMENTS ''2024-09-20 10:00'' =
     Some \<lparr>b_service = PStr ''dentist'', b_name = PStr ''John Doe'', booked = True\<rparr> \<and>
   generate_response ''dentist please''
     (intent_record (PStr ''dentist'') (PStr ''2024-09-20'') (PStr ''10:00'') (PStr ''Alice'')
       (PStr ''book_appointment'')) APPOINTMENTS =
     (''I'm s'' @ ''orry, but 10:00 on 2024-09-20 is already booked. Here are some available times: 09:00, 10:00, 11:00. Would any of these work?'',
      APPOINTMENTS)"
  using conflict_suggests_first_three_slots [where extracted_info = "intent_record (PStr ''dentist'')
        (PStr ''2024-09-20'') (PStr ''10:00'') (PStr ''Alice'') (PStr ''book_appointment'')"
      and service = "''dentist''" and date = "''2024-09-20''" and time = "''10:00''"
      and appointments = APPOINTMENTS and user_message = "''dentist please''"
      and r = "\<lparr>b_service = PStr ''dentist'', b_name = PStr ''John Doe'', booked = True\<rparr>"]
  by (simp add: dict_get_intent_record APPOINTMENTS_def)

subsection \<open>The extraction gateway\<close>




subsection \<open>The turn handler\<close>

text \<open>
  C7. When the message of the request is empty or all of its characters are whitespace
  (also when the body has no message, which reads as the empty string), \<open>chat\<close> replies
  \<^verbatim>\<open>Please enter a message.\<close> and nothing else, and the state is unchanged: no
  request has been sent to the completion service and the calendar is as before.
\<close>

theorem blank_message_rejected:
  assumes "dict_get_default data ''message'' (PStr []) = PStr user_message"
    and "\<forall>c\<in>set user_message. py_isspace c"
  shows "chat e (Some data) w = (Reply ''Please enter a message.'' None, w) \<and>
         w_requests (snd (chat e (Some data) w)) = w_requests w \<and>
         w_appointments (snd (chat e (Some data) w)) = w_appointments w"
  using assms by (simp add: chat_def strip_all_space)

theorem blank_message_rejected_witness:
  "dict_get_default [''message'' \<mapsto> PStr '' \<newline> ''] ''message'' (PStr []) = PStr '' \<newline> '' \<and>
   list_all py_isspace '' \<newline> '' \<and>
   chat env_unavailable (Some [''message'' \<mapsto> PStr '' \<newline> '']) world0 =
     (Reply ''Please enter a message.'' None, world0)"
  using blank_message_rejected [where data = "[''message'' \<mapsto> PStr '' \<newline> '']"
      and user_message = "'' \<newline> ''" and e = env_unavailable and w = world0]
  by (simp add: dict_get_default_def py_isspace_def)

end
